theory Spec2Isabelle
  imports Complex_Main "HOL-Library.Sublist" "HOL-Library.Log_Nat"
begin

section \<open>Text\<close>

text \<open>
  A Python \<open>str\<close> is modelled by the list of its code points below 256, one
  \<open>char\<close> each. On that range \<open>\s\<close> of a \<open>str\<close> pattern and
  \<open>str.strip\<close> know the twelve white-space characters below, \<open>\d\<close>
  knows the ten ASCII digits, and \<open>str.lower\<close> moves the ASCII capitals and the
  Latin-1 capitals (all of 192..222 but the multiplication sign 215) up by 32.
\<close>

definition is_space :: "char \<Rightarrow> bool" where
  "is_space c = (of_char c \<in> {9, 10, 11, 12, 13, 28, 29, 30, 31, 32, 133, 160 :: nat})"

definition is_digit :: "char \<Rightarrow> bool" where
  "is_digit c = (48 \<le> (of_char c :: nat) \<and> (of_char c :: nat) \<le> 57)"

definition lower_char :: "char \<Rightarrow> char" where
  "lower_char c = (let n = (of_char c :: nat) in
     if (65 \<le> n \<and> n \<le> 90) \<or> (192 \<le> n \<and> n \<le> 222 \<and> n \<noteq> 215)
     then char_of (n + 32) else c)"

definition lower :: "string \<Rightarrow> string" where
  "lower s = map lower_char s"

definition strip :: "string \<Rightarrow> string" where
  "strip s = rev (dropWhile is_space (rev (dropWhile is_space s)))"

section \<open>Column resolver\<close>

text \<open>
  \<^verbatim>\<open>
  def pick(cols, *keys):
      keys = [k.lower() for k in keys]
      for c in cols:
          if any(k in str(c).lower() for k in keys):
              return c
      return None
  \<close>
  \<open>k in s\<close> on two strings is contiguous containment, \<open>sublist\<close>.
  Column names are strings, so \<open>str(c)\<close> is \<open>c\<close>.
\<close>

definition key_hit :: "string list \<Rightarrow> string \<Rightarrow> bool" where
  "key_hit keys c = list_ex (\<lambda>k. sublist k (lower c)) keys"

fun pick_loop :: "string list \<Rightarrow> string list \<Rightarrow> string option" where
  "pick_loop [] keys = None"
| "pick_loop (c # cols) keys = (if key_hit keys c then Some c else pick_loop cols keys)"

definition pick :: "string list \<Rightarrow> string list \<Rightarrow> string option" where
  "pick cols keys = pick_loop cols (map lower keys)"

text \<open>
  What the resolver is asked for, in the specification's words: the lowercased name
  contains one of the candidates, compared without regard to case.
\<close>

definition name_contains :: "string list \<Rightarrow> string \<Rightarrow> bool" where
  "name_contains keys c = (\<exists>k \<in> set keys. sublist (lower k) (lower c))"

text \<open>
  Python's \<open>a or b\<close> on the results of two \<open>pick\<close> calls: \<open>a\<close> when it is
  truthy (a non-empty string), otherwise \<open>b\<close>.
\<close>

definition truthy_col :: "string option \<Rightarrow> bool" where
  "truthy_col a = (case a of None \<Rightarrow> False | Some c \<Rightarrow> c \<noteq> [])"

definition py_or :: "string option \<Rightarrow> string option \<Rightarrow> string option" where
  "py_or a b = (if truthy_col a then a else b)"

text \<open>
  \<^verbatim>\<open>region_col = pick(df.columns, "country/area") or pick(df.columns, "country", "region")\<close>
\<close>

definition region_pick :: "string list \<Rightarrow> string option" where
  "region_pick cols = py_or (pick cols [''country/area'']) (pick cols [''country'', ''region''])"

section \<open>Coordinate parser\<close>

text \<open>
  The pattern
  \<^verbatim>\<open>^\s*(-?\d+(?:\.\d+)?)\s*,\s*(-?\d+(?:\.\d+)?)\s*$\<close>
  is read left to right. \<open>take_number\<close> is one group \<open>-?\d+(?:\.\d+)?\<close>
  at the head of the text: the sign \<open>sg\<close> if there is one, the longest run of
  digits \<open>ip\<close> (at least one), and the digits \<open>fp\<close> of the fraction when a
  dot and a digit follow; it gives the group's text and what follows it.
  \<open>pat_match\<close> is \<open>pat.match(v)\<close>: the two groups of the match, or
  \<open>None\<close>. The neighbouring pieces of the pattern start with different
  characters, so the longest run is the only split a match can have
  (\<open>pat_match_iff\<close> below compares it with every split).
\<close>

definition take_number :: "string \<Rightarrow> (string \<times> string) option" where
  "take_number s =
     (let sg = (if prefix ''-'' s then ''-'' else []);
          r1 = drop (length sg) s;
          ip = takeWhile is_digit r1;
          r2 = dropWhile is_digit r1;
          fp = (if prefix ''.'' r2 then takeWhile is_digit (drop 1 r2) else [])
      in if ip = [] then None
         else if fp = [] then Some (sg @ ip, r2)
         else Some (sg @ ip @ ''.'' @ fp, drop (1 + length fp) r2))"

definition pat_match :: "string \<Rightarrow> (string \<times> string) option" where
  "pat_match v =
     (case take_number (dropWhile is_space v) of
        None \<Rightarrow> None
      | Some (g1, r) \<Rightarrow>
          (case dropWhile is_space r of
             [] \<Rightarrow> None
           | c # r' \<Rightarrow>
               if c \<noteq> CHR '','' then None
               else (case take_number (dropWhile is_space r') of
                       None \<Rightarrow> None
                     | Some (g2, r'') \<Rightarrow>
                         if dropWhile is_space r'' = [] then Some (g1, g2) else None)))"

text \<open>
  The split of a text that the pattern describes, written out: white space, a number,
  white space, a comma, white space, a number, white space, and nothing else. A number
  is an optional minus sign, one or more digits and, optionally, a dot with one or more
  digits after it.
\<close>

definition decimal_number :: "string \<Rightarrow> bool" where
  "decimal_number n =
     (\<exists>sg ip fr. n = sg @ ip @ fr \<and> (sg = [] \<or> sg = ''-'') \<and>
        ip \<noteq> [] \<and> list_all is_digit ip \<and>
        (fr = [] \<or> (\<exists>fp. fr = CHR ''.'' # fp \<and> fp \<noteq> [] \<and> list_all is_digit fp)))"

definition coordinate_text :: "string \<Rightarrow> string \<Rightarrow> string \<Rightarrow> bool" where
  "coordinate_text v g1 g2 =
     (\<exists>w1 w2 w3 w4. v = w1 @ g1 @ w2 @ '','' @ w3 @ g2 @ w4 \<and>
        list_all is_space w1 \<and> list_all is_space w2 \<and>
        list_all is_space w3 \<and> list_all is_space w4 \<and>
        decimal_number g1 \<and> decimal_number g2)"

subsection \<open>\<open>float\<close> of a group\<close>

text \<open>
  A 64-bit float is a finite value (kept as the rational it stands for, so \<open>0.0\<close>
  and \<open>-0.0\<close> are one value), an infinity or a NaN.
\<close>

datatype float64 = Fin rat | PInf | NInf | NaN

datatype error =
    FileNotFoundError          \<comment> \<open>the workbook is not in the folder\<close>
  | KeyError_sheet string "string list"  \<comment> \<open>the sheet asked for, the sheets there are\<close>
  | KeyError_column            \<comment> \<open>no column for the coordinates\<close>
  | ValueError                 \<comment> \<open>\<open>float\<close> of a text that is no number\<close>

fun digits_val :: "nat \<Rightarrow> string \<Rightarrow> nat" where
  "digits_val acc [] = acc"
| "digits_val acc (c # cs) = digits_val (10 * acc + (of_char c - 48)) cs"

definition decimal_value :: "string \<Rightarrow> rat" where
  "decimal_value s =
     (let neg = (case s of c # r \<Rightarrow> c = CHR ''-'' | [] \<Rightarrow> False);
          body = (if neg then tl s else s);
          ip = takeWhile is_digit body;
          fp = (case dropWhile is_digit body of [] \<Rightarrow> [] | d # r \<Rightarrow> r);
          v = of_nat (digits_val 0 ip) + of_nat (digits_val 0 fp) / 10 ^ length fp
      in if neg then - v else v)"

text \<open>
  Rounding to the nearest binary64 value, ties to even. \<open>log2_floor q\<close> is the
  power of two at or below a positive \<open>q\<close>; the unit in the last place of \<open>q\<close>
  is 52 binary places below it, and never below that of the smallest normal number.
  A magnitude of \<open>2^1024 - 2^970\<close> or more (the largest finite value plus half
  its unit) rounds to an infinity.
\<close>

definition pow2 :: "int \<Rightarrow> rat" where
  "pow2 k = (if 0 \<le> k then 2 ^ nat k else 1 / 2 ^ nat (- k))"

definition log2_floor :: "rat \<Rightarrow> int" where
  "log2_floor q =
     (let k = bitlen (fst (quotient_of q)) - bitlen (snd (quotient_of q))
      in if pow2 k \<le> q then k else k - 1)"

definition round_half_even :: "rat \<Rightarrow> int" where
  "round_half_even x =
     (let f = \<lfloor>x\<rfloor>; d = x - of_int f
      in if d < 1 / 2 then f else if 1 / 2 < d then f + 1
         else if even f then f else f + 1)"

definition overflow_threshold :: rat where
  "overflow_threshold = 2 ^ 1024 - 2 ^ 970"

definition binary64 :: "rat \<Rightarrow> float64" where
  "binary64 q =
     (if overflow_threshold \<le> \<bar>q\<bar> then (if 0 < q then PInf else NInf)
      else if q = 0 then Fin 0
      else (let u = pow2 (max (log2_floor \<bar>q\<bar>) (- 1022) - 52)
            in Fin (of_int (round_half_even (q / u)) * u)))"

text \<open>
  \<open>float(s)\<close>, modelled on the texts a group of the pattern can hold: the
  correctly rounded value of the decimal numeral. For any other text the model raises
  \<open>ValueError\<close> (the runtime reads a few more spellings, none of which a group
  can hold).
\<close>

definition py_float :: "string \<Rightarrow> error + float64" where
  "py_float s =
     (case take_number s of
        None \<Rightarrow> Inl ValueError
      | Some (g, r) \<Rightarrow> if r = [] then Inr (binary64 (decimal_value s)) else Inl ValueError)"

text \<open>
  \<^verbatim>\<open>
  def parse_coordinates(series: pd.Series):
      lat, lon = [], []
      for v in series.astype(str):
          m = pat.match(v)
          if m:
              lat.append(float(m.group(1))); lon.append(float(m.group(2)))
          else:
              lat.append(None); lon.append(None)
      return pd.Series(lat, name="Latitude"), pd.Series(lon, name="Longitude")
  \<close>
  \<open>parse_value\<close> is one turn of the loop; \<open>parse_texts\<close> is the loop over
  the texts of the series, stopping at the first exception.
\<close>

definition parse_value :: "string \<Rightarrow> error + (float64 option \<times> float64 option)" where
  "parse_value v =
     (case pat_match v of
        None \<Rightarrow> Inr (None, None)
      | Some (g1, g2) \<Rightarrow>
          (case py_float g1 of
             Inl e \<Rightarrow> Inl e
           | Inr a \<Rightarrow> (case py_float g2 of Inl e \<Rightarrow> Inl e | Inr b \<Rightarrow> Inr (Some a, Some b))))"

fun parse_texts :: "string list \<Rightarrow> error + (float64 option list \<times> float64 option list)" where
  "parse_texts [] = Inr ([], [])"
| "parse_texts (v # vs) =
     (case parse_value v of
        Inl e \<Rightarrow> Inl e
      | Inr (a, b) \<Rightarrow>
          (case parse_texts vs of
             Inl e \<Rightarrow> Inl e
           | Inr (lat, lon) \<Rightarrow> Inr (a # lat, b # lon)))"

section \<open>Tables\<close>

text \<open>
  A cell of the sheet is a text, a number or empty (pandas reads an empty cell as NaN).
  Numbers of the sheet are finite and are kept exact: sums and comparisons of capacities
  are those of the rationals, and the rounding of a 64-bit sum is not represented. What
  pandas and the runtime do to a single value is taken as given, in \<open>runtime\<close>:
  the text \<open>astype(str)\<close> writes for a number, and the number, if any, that
  \<open>pd.to_numeric(..., errors="coerce")\<close> reads from a text.
\<close>

datatype cell = CText string | CNumber rat | CEmpty

record runtime =
  str_of_number :: "rat \<Rightarrow> string"
  number_of_text :: "string \<Rightarrow> rat option"

definition astype_str :: "runtime \<Rightarrow> cell \<Rightarrow> string" where
  "astype_str rt c =
     (case c of CText s \<Rightarrow> s | CNumber q \<Rightarrow> str_of_number rt q | CEmpty \<Rightarrow> ''nan'')"

definition to_numeric :: "runtime \<Rightarrow> cell \<Rightarrow> rat option" where
  "to_numeric rt c =
     (case c of CText s \<Rightarrow> number_of_text rt s | CNumber q \<Rightarrow> Some q | CEmpty \<Rightarrow> None)"

definition coerce :: "runtime \<Rightarrow> cell \<Rightarrow> cell" where
  "coerce rt c = (case to_numeric rt c of None \<Rightarrow> CEmpty | Some q \<Rightarrow> CNumber q)"

text \<open>
  A sheet is its header and its rows, each row holding one cell per column of the header,
  in order. \<open>cell_at cols row c\<close> is \<open>df[c]\<close> at one row.
\<close>

record worksheet =
  header :: "string list"
  body :: "cell list list"

definition cell_at :: "string list \<Rightarrow> cell list \<Rightarrow> string \<Rightarrow> cell" where
  "cell_at cols row c = (case map_of (zip cols row) c of None \<Rightarrow> CEmpty | Some v \<Rightarrow> v)"

text \<open>
  A row of the loaded table: the cells of the sheet's columns and the three columns the
  loader adds. \<open>TotalCapacity\<close> is \<open>None\<close> where pandas holds NaN or
  \<open>pd.NA\<close>. The table's columns are \<open>columns\<close> followed by
  \<open>Latitude\<close>, \<open>Longitude\<close> and \<open>TotalCapacity\<close>.
\<close>

record plant =
  cells :: "cell list"
  Latitude :: float64
  Longitude :: float64
  TotalCapacity :: "rat option"

record frame =
  columns :: "string list"
  plants :: "plant list"

record meta =
  owner :: "string option"
  region :: "string option"
  sheet :: string
  cap_cols :: "string list"

section \<open>Capacity aggregator\<close>

text \<open>
  \<^verbatim>\<open>
  cap_cols = [c for c in df.columns if str(c).lower().endswith("capacity (ttpa)")]
  if cap_cols:
      for c in cap_cols:
          df[c] = pd.to_numeric(df[c], errors="coerce")
      df["TotalCapacity"] = df[cap_cols].sum(axis=1, min_count=1)
  else:
      df["TotalCapacity"] = pd.NA
  \<close>
  \<open>row_sum\<close> is \<open>sum(axis=1, min_count=1)\<close> at one row: the sum of the
  values that are there, and NaN when fewer than one is.
\<close>

definition is_cap_col :: "string \<Rightarrow> bool" where
  "is_cap_col c = suffix ''capacity (ttpa)'' (lower c)"

definition present :: "rat option list \<Rightarrow> rat list" where
  "present vs = List.map_filter (\<lambda>v. v) vs"

definition row_sum :: "rat option list \<Rightarrow> rat option" where
  "row_sum vs = (if length (present vs) < 1 then None else Some (sum_list (present vs)))"

definition cap_values :: "runtime \<Rightarrow> string list \<Rightarrow> string list \<Rightarrow> cell list \<Rightarrow> rat option list" where
  "cap_values rt cols caps row = map (\<lambda>c. to_numeric rt (cell_at cols row c)) caps"

definition coerce_cells :: "runtime \<Rightarrow> string list \<Rightarrow> string list \<Rightarrow> cell list \<Rightarrow> cell list" where
  "coerce_cells rt cols caps row =
     map (\<lambda>(c, v). if c \<in> set caps then coerce rt v else v) (zip cols row)"

definition total_capacity :: "runtime \<Rightarrow> string list \<Rightarrow> string list \<Rightarrow> plant \<Rightarrow> plant" where
  "total_capacity rt cols caps p =
     (if caps \<noteq> []
      then p\<lparr>cells := coerce_cells rt cols caps (cells p),
             TotalCapacity := row_sum (cap_values rt cols caps (cells p))\<rparr>
      else p\<lparr>TotalCapacity := None\<rparr>)"

section \<open>Load orchestrator\<close>

text \<open>
  \<open>parse_coordinates\<close> on a column of cells: \<open>series.astype(str)\<close>, then the
  loop.
\<close>

definition parse_coordinates ::
  "runtime \<Rightarrow> cell list \<Rightarrow> error + (float64 option list \<times> float64 option list)" where
  "parse_coordinates rt series = parse_texts (map (astype_str rt) series)"

text \<open>
  \<open>df.join([lat, lon]).dropna(subset=["Latitude", "Longitude"])\<close> at one row:
  the row with its two new cells, or nothing when either is missing (\<open>None\<close> or
  NaN).
\<close>

definition join_dropna :: "cell list \<times> float64 option \<times> float64 option \<Rightarrow> plant option" where
  "join_dropna t =
     (case t of
        (row, Some a, Some b) \<Rightarrow>
          if a = NaN \<or> b = NaN then None
          else Some \<lparr>cells = row, Latitude = a, Longitude = b, TotalCapacity = None\<rparr>
      | _ \<Rightarrow> None)"

text \<open>
  \<open>load_data\<close>. Its argument is what is on disk: \<open>None\<close> when
  \<open>os.path.exists(path)\<close> is false, otherwise the workbook's sheets by name, in
  order. The three \<open>raise\<close> statements are the three \<open>Inl\<close> results; an
  exception of \<open>parse_coordinates\<close> would pass through. The last two
  \<open>pd.to_numeric\<close> calls leave the two float columns as they are.
\<close>

definition load_data ::
  "runtime \<Rightarrow> (string \<times> worksheet) list option \<Rightarrow> error + (frame \<times> meta)" where
  "load_data rt file =
     (case file of
        None \<Rightarrow> Inl FileNotFoundError
      | Some xls \<Rightarrow>
          (case map_of xls ''Plant data'' of
             None \<Rightarrow> Inl (KeyError_sheet ''Plant data'' (map fst xls))
           | Some df \<Rightarrow>
               (let cols = map strip (header df) in
                case pick cols [''coordinates''] of
                  None \<Rightarrow> Inl KeyError_column
                | Some coord_col \<Rightarrow>
                    (case parse_coordinates rt (map (\<lambda>row. cell_at cols row coord_col) (body df)) of
                       Inl e \<Rightarrow> Inl e
                     | Inr (lat, lon) \<Rightarrow>
                         (let kept = List.map_filter join_dropna (zip (body df) (zip lat lon));
                              cols2 = cols @ [''Latitude'', ''Longitude''];
                              owner_col = pick cols2 [''owner''];
                              region_col = region_pick cols2;
                              caps = filter is_cap_col cols2
                          in Inr (\<lparr>columns = cols, plants = map (total_capacity rt cols caps) kept\<rparr>,
                                  \<lparr>owner = owner_col, region = region_col,
                                   sheet = ''Plant data'', cap_cols = caps\<rparr>))))))"

section \<open>Filter engine\<close>

text \<open>
  \<^verbatim>\<open>
  if df["TotalCapacity"].notna().any():
      min_cap = int(df["TotalCapacity"].min(skipna=True))
      max_cap = int(df["TotalCapacity"].max(skipna=True))
      cap_range = st.sidebar.slider(..., min_value=min_cap, max_value=max_cap,
                                    value=(min_cap, max_cap))
  else:
      cap_range = None
  \<close>
  \<open>py_int\<close> is \<open>int\<close> of a number: the fraction is cut off, towards zero.
  \<open>default_cap_range\<close> is the range of the slider before the user moves it.
\<close>

definition py_int :: "rat \<Rightarrow> int" where
  "py_int q = (if 0 \<le> q then \<lfloor>q\<rfloor> else \<lceil>q\<rceil>)"

definition capacities :: "plant list \<Rightarrow> rat list" where
  "capacities f = present (map TotalCapacity f)"

definition default_cap_range :: "plant list \<Rightarrow> (int \<times> int) option" where
  "default_cap_range df =
     (if capacities df \<noteq> []
      then Some (py_int (Min (set (capacities df))), py_int (Max (set (capacities df))))
      else None)"

text \<open>
  \<^verbatim>\<open>
  f = df.copy()
  if sel_owners and owner_col:
      f = f[f[owner_col].astype(str).isin(sel_owners)]
  if sel_regions and region_col:
      f = f[f[region_col].astype(str).isin(sel_regions)]
  if cap_range and f["TotalCapacity"].notna().any():
      f = f[f["TotalCapacity"].between(cap_range[0], cap_range[1])]
  \<close>
  A selection is \<open>None\<close> when its column did not resolve, otherwise the list the
  multiselect returns; \<open>None\<close>, an empty list and an empty column name are falsy.
  A range is \<open>None\<close> or a pair, and a pair is truthy. \<open>between\<close> is false
  on NaN.
\<close>

definition isin :: "runtime \<Rightarrow> string list \<Rightarrow> string \<Rightarrow> string list \<Rightarrow> plant \<Rightarrow> bool" where
  "isin rt cols col sel p = (astype_str rt (cell_at cols (cells p) col) \<in> set sel)"

definition filter_selection ::
  "runtime \<Rightarrow> string list \<Rightarrow> string option \<Rightarrow> string list option \<Rightarrow> plant list \<Rightarrow> plant list" where
  "filter_selection rt cols col sel f =
     (case (sel, col) of
        (Some s, Some c) \<Rightarrow> if s \<noteq> [] \<and> c \<noteq> [] then filter (isin rt cols c s) f else f
      | _ \<Rightarrow> f)"

definition between :: "int \<Rightarrow> int \<Rightarrow> plant \<Rightarrow> bool" where
  "between lo hi p =
     (case TotalCapacity p of None \<Rightarrow> False | Some c \<Rightarrow> of_int lo \<le> c \<and> c \<le> of_int hi)"

definition notna_any :: "plant list \<Rightarrow> bool" where
  "notna_any f = list_ex (\<lambda>p. TotalCapacity p \<noteq> None) f"

definition filter_capacity :: "(int \<times> int) option \<Rightarrow> plant list \<Rightarrow> plant list" where
  "filter_capacity cap_range f =
     (case cap_range of
        None \<Rightarrow> f
      | Some (lo, hi) \<Rightarrow> if notna_any f then filter (between lo hi) f else f)"

definition apply_filters ::
  "runtime \<Rightarrow> string list \<Rightarrow> meta \<Rightarrow> string list option \<Rightarrow> string list option \<Rightarrow>
   (int \<times> int) option \<Rightarrow> plant list \<Rightarrow> plant list" where
  "apply_filters rt cols m sel_owners sel_regions cap_range df =
     filter_capacity cap_range
       (filter_selection rt cols (region m) sel_regions
          (filter_selection rt cols (owner m) sel_owners df))"

text \<open>
  The filter in the specification's words. A row passes a selection when the selection is
  not active (no list, an empty list, no column) or the text of its cell is one of the
  selected texts; it is in a range when its capacity is there and lies between the two
  bounds, both included.
\<close>

definition passes :: "runtime \<Rightarrow> string list \<Rightarrow> string option \<Rightarrow> string list option \<Rightarrow> plant \<Rightarrow> bool" where
  "passes rt cols col sel p =
     (case (sel, col) of
        (Some s, Some c) \<Rightarrow> s = [] \<or> c = [] \<or> isin rt cols c s p
      | _ \<Rightarrow> True)"

definition in_range :: "int \<Rightarrow> int \<Rightarrow> plant \<Rightarrow> bool" where
  "in_range lo hi p = (\<exists>c. TotalCapacity p = Some c \<and> of_int lo \<le> c \<and> c \<le> of_int hi)"

text \<open>
  A runtime for the examples: their cells are texts, plain numbers or empty, no text of
  theirs is a number, and no number of theirs is written out.
\<close>

definition text_runtime :: runtime where
  "text_runtime = \<lparr>str_of_number = (\<lambda>q. ''0''), number_of_text = (\<lambda>s. None)\<rparr>"

section \<open>Auxiliary notions\<close>

text \<open>
  What may follow a number in a text for \<open>take_number\<close> to stop there: nothing,
  or a character that is neither a digit nor a dot.
\<close>

definition stop :: "string \<Rightarrow> bool" where
  "stop r = (r = [] \<or> (\<not> is_digit (hd r) \<and> hd r \<noteq> CHR ''.''))"

text \<open>
  What one turn of the loop of \<open>parse_coordinates\<close> appends for a text, and the
  rows \<open>load_data\<close> keeps, written row by row.
\<close>

definition coordinate_floats :: "string \<Rightarrow> float64 option \<times> float64 option" where
  "coordinate_floats v =
     (case pat_match v of
        None \<Rightarrow> (None, None)
      | Some (g1, g2) \<Rightarrow> (Some (binary64 (decimal_value g1)), Some (binary64 (decimal_value g2))))"

definition kept_rows :: "runtime \<Rightarrow> string list \<Rightarrow> string \<Rightarrow> cell list list \<Rightarrow> plant list" where
  "kept_rows rt cols c rows =
     List.map_filter (\<lambda>row. join_dropna (row, coordinate_floats (astype_str rt (cell_at cols row c)))) rows"

text \<open>
  A finite float, and the numbers a row of the loaded table holds in the capacity
  columns.
\<close>

definition is_finite :: "float64 \<Rightarrow> bool" where
  "is_finite x = (case x of Fin q \<Rightarrow> True | _ \<Rightarrow> False)"

definition numeric_cells :: "string list \<Rightarrow> string list \<Rightarrow> plant \<Rightarrow> rat list" where
  "numeric_cells cols caps p =
     List.map_filter (\<lambda>c. case cell_at cols (cells p) c of CNumber q \<Rightarrow> Some q | _ \<Rightarrow> None) caps"

section \<open>Properties of the column resolver\<close>

lemma key_hit_lower: "key_hit (map lower keys) c = name_contains keys c"
  by (simp add: key_hit_def name_contains_def list_ex_iff)

lemma pick_loop_find: "pick_loop cols ks = find (key_hit ks) cols"
  by (induction cols) auto

lemma pick_loop_None: "pick_loop cols ks = None \<longleftrightarrow> (\<forall>c \<in> set cols. \<not> key_hit ks c)"
  by (induction cols) auto

lemma pick_loop_Some:
  "pick_loop cols ks = Some c \<longleftrightarrow>
     (\<exists>i < length cols. cols ! i = c \<and> key_hit ks c \<and> (\<forall>j < i. \<not> key_hit ks (cols ! j)))"
  unfolding pick_loop_find find_Some_iff by blast

lemma lower_Nil_iff: "lower s = [] \<longleftrightarrow> s = []"
  by (simp add: lower_def)

lemma pick_Some_hit: "pick cols keys = Some c \<Longrightarrow> c \<in> set cols \<and> name_contains keys c"
  by (auto simp: pick_def pick_loop_Some key_hit_lower)

lemma pick_nonempty:
  assumes "pick cols keys = Some c" and "[] \<notin> set keys"
  shows "c \<noteq> []"
proof -
  from assms(1) have "name_contains keys c" by (simp add: pick_Some_hit)
  then obtain k where k: "k \<in> set keys" "sublist (lower k) (lower c)"
    by (auto simp: name_contains_def)
  from k(1) assms(2) have "lower k \<noteq> []" by (auto simp: lower_Nil_iff)
  with k(2) have "lower c \<noteq> []" by auto
  then show ?thesis by (simp add: lower_Nil_iff)
qed

text \<open>
  C7. \<open>pick\<close> returns the first column, in the order of the sheet, whose lowercased
  name contains one of the candidates (lowercased as well), and \<open>None\<close> when no
  column does. The region column is the one \<open>pick\<close> finds for
  \<open>country/area\<close>; only when there is none is it the one found for
  \<open>country\<close> or \<open>region\<close>.
\<close>

theorem pick_first_match:
  "(case pick cols keys of
      None \<Rightarrow> \<forall>c \<in> set cols. \<not> name_contains keys c
    | Some c \<Rightarrow> \<exists>i < length cols. cols ! i = c \<and> name_contains keys c \<and>
                  (\<forall>j < i. \<not> name_contains keys (cols ! j))) \<and>
   region_pick cols =
     (case pick cols [''country/area''] of
        Some c \<Rightarrow> Some c
      | None \<Rightarrow> pick cols [''country'', ''region''])"
proof (intro conjI)
  define r where "r = pick cols keys"
  have "case r of
      None \<Rightarrow> \<forall>c \<in> set cols. \<not> name_contains keys c
    | Some c \<Rightarrow> \<exists>i < length cols. cols ! i = c \<and> name_contains keys c \<and>
                  (\<forall>j < i. \<not> name_contains keys (cols ! j))"
  proof (cases r)
    case None
    then have "\<forall>c \<in> set cols. \<not> name_contains keys c"
      by (simp add: r_def pick_def pick_loop_None key_hit_lower)
    with None show ?thesis by simp
  next
    case (Some c)
    then have "\<exists>i < length cols. cols ! i = c \<and> name_contains keys c \<and>
                  (\<forall>j < i. \<not> name_contains keys (cols ! j))"
      by (simp add: r_def pick_def pick_loop_Some key_hit_lower)
    with Some show ?thesis by simp
  qed
  then show "case pick cols keys of
      None \<Rightarrow> \<forall>c \<in> set cols. \<not> name_contains keys c
    | Some c \<Rightarrow> \<exists>i < length cols. cols ! i = c \<and> name_contains keys c \<and>
                  (\<forall>j < i. \<not> name_contains keys (cols ! j))"
    by (simp add: r_def)
next
  define a where "a = pick cols [''country/area'']"
  have "py_or a (pick cols [''country'', ''region'']) =
     (case a of Some c \<Rightarrow> Some c | None \<Rightarrow> pick cols [''country'', ''region''])"
  proof (cases a)
    case None
    then show ?thesis by (simp add: py_or_def truthy_col_def)
  next
    case (Some c)
    then have "pick cols [''country/area''] = Some c" by (simp add: a_def)
    then have "c \<noteq> []" by (rule pick_nonempty) simp
    with Some show ?thesis by (simp add: py_or_def truthy_col_def)
  qed
  then show "region_pick cols =
     (case pick cols [''country/area''] of
        Some c \<Rightarrow> Some c
      | None \<Rightarrow> pick cols [''country'', ''region''])"
    by (simp add: region_pick_def a_def)
qed

theorem pick_first_match_witness:
  "pick [''Plant name'', ''Parent OWNER'', ''Owner''] [''Owner''] = Some ''Parent OWNER'' \<and>
   (\<exists>i < length [''Plant name'', ''Parent OWNER'', ''Owner''].
      [''Plant name'', ''Parent OWNER'', ''Owner''] ! i = ''Parent OWNER'' \<and>
      name_contains [''Owner''] ''Parent OWNER'' \<and>
      (\<forall>j < i. \<not> name_contains [''Owner''] ([''Plant name'', ''Parent OWNER'', ''Owner''] ! j))) \<and>
   pick [''Region'', ''Country''] [''country/area''] = None \<and>
   region_pick [''Region'', ''Country''] = Some ''Region'' \<and>
   region_pick [''Region'', ''Country/Area''] = Some ''Country/Area''"
proof -
  have p: "pick [''Plant name'', ''Parent OWNER'', ''Owner''] [''Owner''] = Some ''Parent OWNER''"
    by code_simp
  have q: "pick [''Region'', ''Country''] [''country/area''] = None"
    by code_simp
  have q2: "pick [''Region'', ''Country''] [''country'', ''region''] = Some ''Region''"
    by code_simp
  have q3: "pick [''Region'', ''Country/Area''] [''country/area''] = Some ''Country/Area''"
    by code_simp
  show ?thesis
    using pick_first_match [of "[''Plant name'', ''Parent OWNER'', ''Owner'']" "[''Owner'']"]
      pick_first_match [of "[''Region'', ''Country'']" "[]"]
      pick_first_match [of "[''Region'', ''Country/Area'']" "[]"]
    by (simp add: p q q2 q3)
qed

section \<open>Properties of the filter engine\<close>

lemma between_in_range: "between lo hi = in_range lo hi"
  by (auto simp: between_def in_range_def fun_eq_iff split: option.splits)

lemma notna_any_iff: "notna_any f \<longleftrightarrow> (\<exists>p \<in> set f. TotalCapacity p \<noteq> None)"
  by (simp add: notna_any_def list_ex_iff)

lemma filter_selection_passes: "filter_selection rt cols col sel f = filter (passes rt cols col sel) f"
proof -
  have "passes rt cols (Some c) (Some s) = isin rt cols c s" if "s \<noteq> []" "c \<noteq> []" for s c
    using that by (simp add: passes_def fun_eq_iff)
  moreover have "passes rt cols col sel = (\<lambda>p. True)"
    if "sel = None \<or> col = None \<or> sel = Some [] \<or> col = Some []"
    using that by (auto simp: passes_def fun_eq_iff split: option.splits)
  ultimately show ?thesis
    by (auto simp: filter_selection_def split: option.splits)
qed

text \<open>
  C1, as the code has it. With a range set, the capacity test runs only when some row
  of the table it is given has a capacity; it then keeps exactly the rows whose capacity
  is there and lies between the bounds, both included, so a row without a capacity is
  dropped. When no row has a capacity, or no range is set, every row is kept.
\<close>

theorem filter_capacity_inclusive:
  "filter_capacity None f = f \<and>
   filter_capacity (Some (lo, hi)) f =
     (if \<exists>p \<in> set f. TotalCapacity p \<noteq> None then filter (in_range lo hi) f else f)"
  by (simp add: filter_capacity_def notna_any_iff between_in_range)

theorem filter_capacity_inclusive_witness:
  "filter_capacity (Some (0, 10))
     [\<lparr>cells = [], Latitude = Fin 0, Longitude = Fin 0, TotalCapacity = Some 0\<rparr>,
      \<lparr>cells = [], Latitude = Fin 0, Longitude = Fin 0, TotalCapacity = Some 10\<rparr>,
      \<lparr>cells = [], Latitude = Fin 0, Longitude = Fin 0, TotalCapacity = Some (21 / 2)\<rparr>] =
     [\<lparr>cells = [], Latitude = Fin 0, Longitude = Fin 0, TotalCapacity = Some 0\<rparr>,
      \<lparr>cells = [], Latitude = Fin 0, Longitude = Fin 0, TotalCapacity = Some 10\<rparr>] \<and>
   filter_capacity (Some (0, 10))
     [\<lparr>cells = [], Latitude = Fin 0, Longitude = Fin 0, TotalCapacity = None\<rparr>] =
     [\<lparr>cells = [], Latitude = Fin 0, Longitude = Fin 0, TotalCapacity = None\<rparr>]"
  using filter_capacity_inclusive [of
     "[\<lparr>cells = [], Latitude = Fin 0, Longitude = Fin 0, TotalCapacity = Some 0\<rparr>,
      \<lparr>cells = [], Latitude = Fin 0, Longitude = Fin 0, TotalCapacity = Some 10\<rparr>,
      \<lparr>cells = [], Latitude = Fin 0, Longitude = Fin 0, TotalCapacity = Some (21 / 2)\<rparr>]" 0 10]
    filter_capacity_inclusive [of
     "[\<lparr>cells = [], Latitude = Fin 0, Longitude = Fin 0, TotalCapacity = None\<rparr>]" 0 10]
  by (simp add: in_range_def)

text \<open>
  C1 as stated fails: with the range 0..10 and a second row of capacity 5, the row
  without a capacity is dropped.
\<close>

theorem absent_capacity_excluded:
  "filter_capacity (Some (0, 10))
     [\<lparr>cells = [CText ''A''], Latitude = Fin 0, Longitude = Fin 0, TotalCapacity = None\<rparr>,
      \<lparr>cells = [CText ''B''], Latitude = Fin 0, Longitude = Fin 0, TotalCapacity = Some 5\<rparr>] =
     [\<lparr>cells = [CText ''B''], Latitude = Fin 0, Longitude = Fin 0, TotalCapacity = Some 5\<rparr>]"
  by (simp add: filter_capacity_def notna_any_def between_def)

text \<open>
  C9. An empty selection list switches the filter of its column off: the table passes
  unchanged, as it does when the column did not resolve, although no row's text is a
  member of the empty list.
\<close>

theorem empty_selection_is_no_filter:
  "filter_selection rt cols col (Some []) f = f \<and>
   filter_selection rt cols col (Some []) f = filter_selection rt cols col None f \<and>
   apply_filters rt cols m (Some []) sel_regions cap_range df =
     apply_filters rt cols m None sel_regions cap_range df \<and>
   apply_filters rt cols m sel_owners (Some []) cap_range df =
     apply_filters rt cols m sel_owners None cap_range df \<and>
   filter (isin rt cols c []) f = []"
  by (simp add: apply_filters_def filter_selection_def isin_def split: option.splits)

lemma filter_capacity_idem:
  "filter_capacity r (filter_capacity r f) = filter_capacity r f"
proof (cases r)
  case None
  then show ?thesis by (simp add: filter_capacity_def)
next
  case (Some a)
  obtain lo hi where a: "a = (lo, hi)" by (cases a)
  show ?thesis
    unfolding Some a
    by (auto simp: filter_capacity_def notna_any_iff)
qed

lemma filter_capacity_subset: "set (filter_capacity r f) \<subseteq> set f"
  by (auto simp: filter_capacity_def split: option.splits)

lemma filter_id_subset: "set xs \<subseteq> {x. P x} \<Longrightarrow> filter P xs = xs"
  by (induction xs) auto

text \<open>
  C4, as the code has it. The result holds exactly the rows that pass the owner and the
  region selection and, when a range is set and one of those rows has a capacity, have a
  capacity within the range; filtering the result again with the same parameters changes
  nothing; the owner step and the region step may be swapped.
\<close>

theorem apply_filters_subset:
  "apply_filters rt cols m sel_owners sel_regions cap_range df =
     (let g = filter (\<lambda>p. passes rt cols (owner m) sel_owners p \<and>
                           passes rt cols (region m) sel_regions p) df
      in case cap_range of
           None \<Rightarrow> g
         | Some (lo, hi) \<Rightarrow>
             if \<exists>p \<in> set g. TotalCapacity p \<noteq> None then filter (in_range lo hi) g else g) \<and>
   apply_filters rt cols m sel_owners sel_regions cap_range
     (apply_filters rt cols m sel_owners sel_regions cap_range df) =
     apply_filters rt cols m sel_owners sel_regions cap_range df \<and>
   filter_selection rt cols (region m) sel_regions
     (filter_selection rt cols (owner m) sel_owners df) =
     filter_selection rt cols (owner m) sel_owners
       (filter_selection rt cols (region m) sel_regions df)"
proof (intro conjI)
  define g where "g = filter (\<lambda>p. passes rt cols (owner m) sel_owners p \<and>
                           passes rt cols (region m) sel_regions p) df"
  have sel: "filter_selection rt cols (region m) sel_regions
          (filter_selection rt cols (owner m) sel_owners df) = g"
    by (simp add: filter_selection_passes g_def conj_commute)
  have ap: "apply_filters rt cols m sel_owners sel_regions cap_range df = filter_capacity cap_range g"
    by (simp add: apply_filters_def sel)
  show "apply_filters rt cols m sel_owners sel_regions cap_range df =
     (let g = filter (\<lambda>p. passes rt cols (owner m) sel_owners p \<and>
                           passes rt cols (region m) sel_regions p) df
      in case cap_range of
           None \<Rightarrow> g
         | Some (lo, hi) \<Rightarrow>
             if \<exists>p \<in> set g. TotalCapacity p \<noteq> None then filter (in_range lo hi) g else g)"
    unfolding ap g_def [symmetric] Let_def
    by (simp add: filter_capacity_def notna_any_iff between_in_range split: option.splits)
  have "set (filter_capacity cap_range g) \<subseteq> set g" by (rule filter_capacity_subset)
  then have "set (filter_capacity cap_range g) \<subseteq>
      {p. passes rt cols (owner m) sel_owners p \<and> passes rt cols (region m) sel_regions p}"
    by (auto simp: g_def)
  then have "filter (\<lambda>p. passes rt cols (owner m) sel_owners p \<and>
        passes rt cols (region m) sel_regions p) (filter_capacity cap_range g) =
      filter_capacity cap_range g"
    by (rule filter_id_subset)
  then have "filter_selection rt cols (region m) sel_regions
          (filter_selection rt cols (owner m) sel_owners (filter_capacity cap_range g)) =
        filter_capacity cap_range g"
    by (simp add: filter_selection_passes conj_commute)
  then show "apply_filters rt cols m sel_owners sel_regions cap_range
     (apply_filters rt cols m sel_owners sel_regions cap_range df) =
     apply_filters rt cols m sel_owners sel_regions cap_range df"
    unfolding ap by (simp add: apply_filters_def filter_capacity_idem)
  show "filter_selection rt cols (region m) sel_regions
     (filter_selection rt cols (owner m) sel_owners df) =
     filter_selection rt cols (owner m) sel_owners
       (filter_selection rt cols (region m) sel_regions df)"
    by (simp add: filter_selection_passes conj_commute)
qed

theorem apply_filters_subset_witness:
  "apply_filters text_runtime [''Owner'']
     \<lparr>owner = Some ''Owner'', region = None, sheet = ''Plant data'', cap_cols = []\<rparr>
     (Some [''A'']) None (Some (0, 1000))
     [\<lparr>cells = [CText ''A''], Latitude = Fin 0, Longitude = Fin 0, TotalCapacity = Some 100\<rparr>,
      \<lparr>cells = [CText ''B''], Latitude = Fin 0, Longitude = Fin 0, TotalCapacity = Some 50\<rparr>,
      \<lparr>cells = [CText ''A''], Latitude = Fin 0, Longitude = Fin 0, TotalCapacity = Some 2000\<rparr>] =
     [\<lparr>cells = [CText ''A''], Latitude = Fin 0, Longitude = Fin 0, TotalCapacity = Some 100\<rparr>]"
  using apply_filters_subset [of text_runtime "[''Owner'']"
     "\<lparr>owner = Some ''Owner'', region = None, sheet = ''Plant data'', cap_cols = []\<rparr>"
     "Some [''A'']" None "Some (0, 1000)"
     "[\<lparr>cells = [CText ''A''], Latitude = Fin 0, Longitude = Fin 0, TotalCapacity = Some 100\<rparr>,
      \<lparr>cells = [CText ''B''], Latitude = Fin 0, Longitude = Fin 0, TotalCapacity = Some 50\<rparr>,
      \<lparr>cells = [CText ''A''], Latitude = Fin 0, Longitude = Fin 0, TotalCapacity = Some 2000\<rparr>]"]
  by (simp add: passes_def isin_def cell_at_def astype_str_def in_range_def)

text \<open>
  C4 as stated fails: the capacity step may not be moved. It looks at the whole table
  it is given before it tests a row, so after the owner step (one row left, without a
  capacity) it keeps that row, and before the owner step it drops it.
\<close>

theorem capacity_step_order_matters:
  "filter_capacity (Some (5, 5))
     (filter_selection text_runtime [''Owner''] (Some ''Owner'') (Some [''A''])
        [\<lparr>cells = [CText ''A''], Latitude = Fin 0, Longitude = Fin 0, TotalCapacity = None\<rparr>,
         \<lparr>cells = [CText ''B''], Latitude = Fin 0, Longitude = Fin 0, TotalCapacity = Some 5\<rparr>]) =
     [\<lparr>cells = [CText ''A''], Latitude = Fin 0, Longitude = Fin 0, TotalCapacity = None\<rparr>] \<and>
   filter_selection text_runtime [''Owner''] (Some ''Owner'') (Some [''A''])
     (filter_capacity (Some (5, 5))
        [\<lparr>cells = [CText ''A''], Latitude = Fin 0, Longitude = Fin 0, TotalCapacity = None\<rparr>,
         \<lparr>cells = [CText ''B''], Latitude = Fin 0, Longitude = Fin 0, TotalCapacity = Some 5\<rparr>]) =
     []"
  by (simp add: filter_capacity_def filter_selection_def notna_any_def between_def isin_def
      cell_at_def astype_str_def)

lemma set_present: "set (present vs) = {q. Some q \<in> set vs}"
  by (induction vs) (auto simp: present_def List.map_filter_simps split: option.splits)

lemma capacities_mem: "c \<in> set (capacities f) \<longleftrightarrow> (\<exists>p \<in> set f. TotalCapacity p = Some c)"
proof
  assume "c \<in> set (capacities f)"
  then have "Some c \<in> TotalCapacity ` set f" by (simp add: capacities_def set_present)
  then obtain p where "p \<in> set f" "Some c = TotalCapacity p" by blast
  then show "\<exists>p \<in> set f. TotalCapacity p = Some c" by (intro bexI [of _ p]) simp_all
next
  assume "\<exists>p \<in> set f. TotalCapacity p = Some c"
  then obtain p where "p \<in> set f" "TotalCapacity p = Some c" by blast
  then have "Some c \<in> TotalCapacity ` set f" by (metis imageI)
  then show "c \<in> set (capacities f)" by (simp add: capacities_def set_present)
qed

lemma py_int_pos: "0 < q \<Longrightarrow> of_int (py_int q) \<noteq> q \<Longrightarrow> of_int (py_int q) < q"
proof -
  assume a: "0 < q" and b: "of_int (py_int q) \<noteq> q"
  from a have e: "py_int q = \<lfloor>q\<rfloor>" by (simp add: py_int_def)
  have "of_int \<lfloor>q\<rfloor> \<le> q" by (rule of_int_floor_le)
  with b show ?thesis unfolding e by (rule order.not_eq_order_implies_strict)
qed

lemma py_int_neg: "q < 0 \<Longrightarrow> of_int (py_int q) \<noteq> q \<Longrightarrow> q < of_int (py_int q)"
proof -
  assume a: "q < 0" and b: "of_int (py_int q) \<noteq> q"
  from a have e: "py_int q = \<lceil>q\<rceil>" by (simp add: py_int_def)
  have "q \<le> of_int \<lceil>q\<rceil>" by (rule le_of_int_ceiling)
  with b [symmetric] show ?thesis unfolding e by (rule order.not_eq_order_implies_strict)
qed

lemma apply_filters_capacity:
  assumes "p \<in> set (apply_filters rt cols m so sr (Some (lo, hi)) df)"
    and "TotalCapacity p = Some c"
  shows "of_int lo \<le> c \<and> c \<le> of_int hi"
proof -
  define g where "g = filter_selection rt cols (region m) sr (filter_selection rt cols (owner m) so df)"
  from assms(1) have p: "p \<in> set (filter_capacity (Some (lo, hi)) g)"
    by (simp add: apply_filters_def g_def)
  then have "p \<in> set g" using filter_capacity_subset by blast
  with assms(2) have "notna_any g" by (auto simp: notna_any_iff)
  with p have "between lo hi p" by (simp add: filter_capacity_def)
  with assms(2) show ?thesis by (simp add: between_def)
qed

text \<open>
  C10. The range the slider starts with is \<open>int\<close> of the smallest and of the
  largest capacity of the table. Whatever the selections, a row whose capacity is above
  the upper or below the lower bound of that range is not in the result; and the largest
  capacity itself is above the upper bound when it is positive and not a whole number,
  the smallest below the lower bound when it is negative and not a whole number.
\<close>

theorem default_range_truncates:
  assumes "default_cap_range df = Some (lo, hi)"
  shows "lo = py_int (Min (set (capacities df))) \<and>
         hi = py_int (Max (set (capacities df))) \<and>
         (\<exists>p \<in> set df. TotalCapacity p = Some (Min (set (capacities df)))) \<and>
         (\<exists>p \<in> set df. TotalCapacity p = Some (Max (set (capacities df)))) \<and>
         (\<forall>p \<in> set df. \<forall>c. TotalCapacity p = Some c \<and> (of_int hi < c \<or> c < of_int lo) \<longrightarrow>
            p \<notin> set (apply_filters rt cols m sel_owners sel_regions (Some (lo, hi)) df)) \<and>
         (0 < Max (set (capacities df)) \<and> of_int hi \<noteq> Max (set (capacities df)) \<longrightarrow>
            of_int hi < Max (set (capacities df))) \<and>
         (Min (set (capacities df)) < 0 \<and> of_int lo \<noteq> Min (set (capacities df)) \<longrightarrow>
            Min (set (capacities df)) < of_int lo)"
proof -
  from assms have ne: "capacities df \<noteq> []"
    and lo: "lo = py_int (Min (set (capacities df)))"
    and hi: "hi = py_int (Max (set (capacities df)))"
    by (auto simp: default_cap_range_def split: if_splits)
  from ne have "Min (set (capacities df)) \<in> set (capacities df)"
    and "Max (set (capacities df)) \<in> set (capacities df)"
    by simp_all
  then have ex: "\<exists>p \<in> set df. TotalCapacity p = Some (Min (set (capacities df)))"
    "\<exists>p \<in> set df. TotalCapacity p = Some (Max (set (capacities df)))"
    by (simp_all add: capacities_mem)
  have out: "\<forall>p \<in> set df. \<forall>c. TotalCapacity p = Some c \<and> (of_int hi < c \<or> c < of_int lo) \<longrightarrow>
            p \<notin> set (apply_filters rt cols m sel_owners sel_regions (Some (lo, hi)) df)"
    using apply_filters_capacity by fastforce
  show ?thesis
    using lo hi ex out py_int_pos py_int_neg by blast
qed

theorem default_range_truncates_witness:
  "default_cap_range
     [\<lparr>cells = [], Latitude = Fin 0, Longitude = Fin 0, TotalCapacity = Some (21 / 2)\<rparr>,
      \<lparr>cells = [], Latitude = Fin 0, Longitude = Fin 0, TotalCapacity = Some (- (7 / 2))\<rparr>] =
     Some (- 3, 10) \<and>
   \<lparr>cells = [], Latitude = Fin 0, Longitude = Fin 0, TotalCapacity = Some (21 / 2)\<rparr> \<notin>
     set (apply_filters text_runtime [] \<lparr>owner = None, region = None, sheet = ''Plant data'', cap_cols = []\<rparr>
            None None (Some (- 3, 10))
     [\<lparr>cells = [], Latitude = Fin 0, Longitude = Fin 0, TotalCapacity = Some (21 / 2)\<rparr>,
      \<lparr>cells = [], Latitude = Fin 0, Longitude = Fin 0, TotalCapacity = Some (- (7 / 2))\<rparr>]) \<and>
   \<lparr>cells = [], Latitude = Fin 0, Longitude = Fin 0, TotalCapacity = Some (- (7 / 2))\<rparr> \<notin>
     set (apply_filters text_runtime [] \<lparr>owner = None, region = None, sheet = ''Plant data'', cap_cols = []\<rparr>
            None None (Some (- 3, 10))
     [\<lparr>cells = [], Latitude = Fin 0, Longitude = Fin 0, TotalCapacity = Some (21 / 2)\<rparr>,
      \<lparr>cells = [], Latitude = Fin 0, Longitude = Fin 0, TotalCapacity = Some (- (7 / 2))\<rparr>])"
proof -
  have d: "default_cap_range
     [\<lparr>cells = [], Latitude = Fin 0, Longitude = Fin 0, TotalCapacity = Some (21 / 2)\<rparr>,
      \<lparr>cells = [], Latitude = Fin 0, Longitude = Fin 0, TotalCapacity = Some (- (7 / 2))\<rparr>] =
     Some (- 3, 10)"
    by code_simp
  have p1: "\<lparr>cells = [], Latitude = Fin 0, Longitude = Fin 0, TotalCapacity = Some (21 / 2)\<rparr> \<in> set
     [\<lparr>cells = [], Latitude = Fin 0, Longitude = Fin 0, TotalCapacity = Some (21 / 2)\<rparr>,
      \<lparr>cells = [], Latitude = Fin 0, Longitude = Fin 0, TotalCapacity = Some (- (7 / 2))\<rparr>]"
    and p2: "\<lparr>cells = [], Latitude = Fin 0, Longitude = Fin 0, TotalCapacity = Some (- (7 / 2))\<rparr> \<in> set
     [\<lparr>cells = [], Latitude = Fin 0, Longitude = Fin 0, TotalCapacity = Some (21 / 2)\<rparr>,
      \<lparr>cells = [], Latitude = Fin 0, Longitude = Fin 0, TotalCapacity = Some (- (7 / 2))\<rparr>]"
    by simp_all
  note t = default_range_truncates [OF d, of text_runtime "[]"
        "\<lparr>owner = None, region = None, sheet = ''Plant data'', cap_cols = []\<rparr>" None None]
  note t5 = t [THEN conjunct2, THEN conjunct2, THEN conjunct2, THEN conjunct2, THEN conjunct1]
  show ?thesis
    using d t5 [THEN bspec, OF p1, THEN spec, of "21 / 2"] t5 [THEN bspec, OF p2, THEN spec, of "- (7 / 2)"]
    by simp
qed

section \<open>Properties of the coordinate parser\<close>

lemma digit_chars: "is_digit c \<Longrightarrow> c \<noteq> CHR ''-'' \<and> c \<noteq> CHR ''.'' \<and> c \<noteq> CHR '','' \<and> \<not> is_space c"
  by (auto simp: is_digit_def is_space_def)

lemma space_chars: "is_space c \<Longrightarrow> c \<noteq> CHR ''-'' \<and> c \<noteq> CHR ''.'' \<and> c \<noteq> CHR '','' \<and> \<not> is_digit c"
  by (auto simp: is_digit_def is_space_def)

lemma special_chars:
  "\<not> is_digit (CHR ''-'')" "\<not> is_digit (CHR ''.'')" "\<not> is_digit (CHR '','')"
  "\<not> is_space (CHR ''-'')" "\<not> is_space (CHR ''.'')" "\<not> is_space (CHR '','')"
  by (simp_all add: is_digit_def is_space_def)

lemma takeWhile_stop: "list_all P w \<Longrightarrow> r = [] \<or> \<not> P (hd r) \<Longrightarrow> takeWhile P (w @ r) = w"
  by (induction w) (auto simp: takeWhile_eq_Nil_iff)

lemma dropWhile_stop: "list_all P w \<Longrightarrow> r = [] \<or> \<not> P (hd r) \<Longrightarrow> dropWhile P (w @ r) = r"
  by (induction w) (auto simp: dropWhile_eq_self_iff)

lemma list_all_takeWhile: "list_all P (takeWhile P xs)"
  by (induction xs) auto

lemma prefix_single: "prefix [c] s \<longleftrightarrow> s \<noteq> [] \<and> hd s = c"
  by (cases s) auto

lemma take_number_sound:
  assumes "take_number s = Some (g, r)"
  shows "decimal_number g \<and> s = g @ r \<and> (r = [] \<or> \<not> is_digit (hd r))"
proof -
  define sg where "sg = (if prefix ''-'' s then ''-'' else [])"
  define r1 where "r1 = drop (length sg) s"
  define ip where "ip = takeWhile is_digit r1"
  define r2 where "r2 = dropWhile is_digit r1"
  define fp where "fp = (if prefix ''.'' r2 then takeWhile is_digit (drop 1 r2) else [])"
  have sg: "sg = [] \<or> sg = ''-''" by (simp add: sg_def)
  have s: "s = sg @ r1" by (cases s) (auto simp: sg_def r1_def)
  have r1: "r1 = ip @ r2" by (simp add: ip_def r2_def)
  have ipd: "list_all is_digit ip" by (simp add: ip_def list_all_takeWhile)
  have fpd: "list_all is_digit fp" by (simp add: fp_def list_all_takeWhile)
  have r2h: "r2 = [] \<or> \<not> is_digit (hd r2)"
    unfolding r2_def by (metis hd_dropWhile)
  from assms have t: "(if ip = [] then None
         else if fp = [] then Some (sg @ ip, r2)
         else Some (sg @ ip @ ''.'' @ fp, drop (1 + length fp) r2)) = Some (g, r)"
    unfolding take_number_def Let_def sg_def [symmetric] r1_def [symmetric]
      ip_def [symmetric] r2_def [symmetric] fp_def [symmetric] .
  then have ne: "ip \<noteq> []" by (auto split: if_splits)
  show ?thesis
  proof (cases fp)
    case Nil
    with t ne have g: "g = sg @ ip" and r: "r = r2" by auto
    from s r1 g r have "s = g @ r" by simp
    moreover have "decimal_number g"
      unfolding decimal_number_def g using sg ne ipd
      by (intro exI [of _ sg] exI [of _ ip] exI [of _ "[]"]) auto
    ultimately show ?thesis using r2h r by blast
  next
    case (Cons a as)
    then have fne: "fp \<noteq> []" by simp
    with t ne have g: "g = sg @ ip @ ''.'' @ fp" and r: "r = drop (1 + length fp) r2" by auto
    from fne have pre: "prefix ''.'' r2" and fp': "fp = takeWhile is_digit (drop 1 r2)"
      by (auto simp: fp_def split: if_splits)
    from pre have r2': "r2 = ''.'' @ drop 1 r2" by (cases r2) auto
    have d: "drop 1 r2 = fp @ dropWhile is_digit (drop 1 r2)" by (simp add: fp')
    have "r = drop (length fp) (drop 1 r2)" by (simp add: r)
    also have "\<dots> = dropWhile is_digit (drop 1 r2)" by (subst d) simp
    finally have r': "r = dropWhile is_digit (drop 1 r2)" .
    with d r2' have "r2 = ''.'' @ fp @ r" by simp
    with s r1 g have "s = g @ r" by simp
    moreover have "r = [] \<or> \<not> is_digit (hd r)" unfolding r' by (metis hd_dropWhile)
    moreover have "decimal_number g"
      unfolding decimal_number_def g using sg ne ipd fpd fne
      by (intro exI [of _ sg] exI [of _ ip] exI [of _ "''.'' @ fp"]) auto
    ultimately show ?thesis by blast
  qed
qed

lemma take_number_complete:
  assumes "decimal_number g" and "stop r"
  shows "take_number (g @ r) = Some (g, r)"
proof -
  from assms(1) obtain sg ip fr where g: "g = sg @ ip @ fr" and sg: "sg = [] \<or> sg = ''-''"
    and ne: "ip \<noteq> []" and ipd: "list_all is_digit ip"
    and fr: "fr = [] \<or> (\<exists>fp. fr = CHR ''.'' # fp \<and> fp \<noteq> [] \<and> list_all is_digit fp)"
    unfolding decimal_number_def by blast
  from ne ipd have hip: "is_digit (hd ip)" by (cases ip) auto
  then have hip': "hd ip \<noteq> CHR ''-''" using digit_chars by blast
  define s where "s = g @ r"
  have sg': "(if prefix ''-'' s then ''-'' else []) = sg"
    using sg ne hip' by (auto simp: s_def g hd_append prefix_single)
  have r1: "drop (length sg) s = ip @ fr @ r" by (simp add: s_def g)
  have frh: "fr @ r = [] \<or> \<not> is_digit (hd (fr @ r))"
    using fr assms(2) by (auto simp: stop_def special_chars hd_append)
  have ip': "takeWhile is_digit (ip @ fr @ r) = ip"
    using ipd frh by (rule takeWhile_stop)
  have r2: "dropWhile is_digit (ip @ fr @ r) = fr @ r"
    using ipd frh by (rule dropWhile_stop)
  have rh: "r = [] \<or> \<not> is_digit (hd r)" using assms(2) by (auto simp: stop_def)
  from fr show ?thesis
  proof
    assume f0: "fr = []"
    have "\<not> prefix ''.'' r"
      using assms(2) by (auto simp: stop_def prefix_single)
    then show ?thesis
      unfolding s_def [symmetric] take_number_def Let_def sg' r1 ip' r2
      using ne by (simp add: f0 g)
  next
    assume "\<exists>fp. fr = CHR ''.'' # fp \<and> fp \<noteq> [] \<and> list_all is_digit fp"
    then obtain fp where f1: "fr = CHR ''.'' # fp" "fp \<noteq> []" "list_all is_digit fp" by blast
    have a: "takeWhile is_digit (fp @ r) = fp" using f1(3) rh by (rule takeWhile_stop)
    show ?thesis
      unfolding s_def [symmetric] take_number_def Let_def sg' r1 ip' r2
      using ne f1(2) by (simp add: f1(1) g a)
  qed
qed


lemma decimal_number_head: "decimal_number g \<Longrightarrow> g \<noteq> [] \<and> \<not> is_space (hd g)"
proof -
  assume "decimal_number g"
  then obtain sg ip fr where g: "g = sg @ ip @ fr" and sg: "sg = [] \<or> sg = ''-''"
    and ne: "ip \<noteq> []" and ipd: "list_all is_digit ip"
    unfolding decimal_number_def by blast
  from ne ipd have "is_digit (hd ip)" by (cases ip) auto
  then have "\<not> is_space (hd ip)" using digit_chars by blast
  with sg ne show ?thesis by (auto simp: g hd_append special_chars)
qed

lemma dropWhile_all: "list_all P w \<Longrightarrow> dropWhile P w = []"
  by (induction w) auto

lemma dropWhile_Nil_all: "dropWhile P w = [] \<Longrightarrow> list_all P w"
  by (induction w) (auto split: if_splits)

lemma pat_match_SomeD:
  "pat_match v = Some (g1, g2) \<Longrightarrow>
     \<exists>r r' w4. take_number (dropWhile is_space v) = Some (g1, r) \<and>
       dropWhile is_space r = CHR '','' # r' \<and>
       take_number (dropWhile is_space r') = Some (g2, w4) \<and> dropWhile is_space w4 = []"
  by (auto simp: pat_match_def split: option.splits list.splits if_splits)

lemma pat_match_sound:
  assumes "pat_match v = Some (g1, g2)"
  shows "coordinate_text v g1 g2"
proof -
  from pat_match_SomeD [OF assms] obtain r r' w4
    where t1: "take_number (dropWhile is_space v) = Some (g1, r)"
      and c: "dropWhile is_space r = CHR '','' # r'"
      and t2: "take_number (dropWhile is_space r') = Some (g2, w4)"
      and e: "dropWhile is_space w4 = []"
    by blast
  define w1 where "w1 = takeWhile is_space v"
  have v: "v = w1 @ dropWhile is_space v" by (simp add: w1_def)
  define w2 where "w2 = takeWhile is_space r"
  have r: "r = w2 @ dropWhile is_space r" by (simp add: w2_def)
  define w3 where "w3 = takeWhile is_space r'"
  have r': "r' = w3 @ dropWhile is_space r'" by (simp add: w3_def)
  from take_number_sound [OF t1] have d1: "decimal_number g1" and s1: "dropWhile is_space v = g1 @ r"
    by simp_all
  from take_number_sound [OF t2] have d2: "decimal_number g2" and s2: "dropWhile is_space r' = g2 @ w4"
    by simp_all
  from e have w4: "list_all is_space w4" by (rule dropWhile_Nil_all)
  have "v = w1 @ g1 @ w2 @ '','' @ w3 @ g2 @ w4"
    using v s1 r c r' s2 by (metis append_Cons append_Nil)
  moreover have "list_all is_space w1" "list_all is_space w2" "list_all is_space w3"
    by (simp_all add: w1_def w2_def w3_def list_all_takeWhile)
  ultimately show ?thesis
    unfolding coordinate_text_def using w4 d1 d2 by blast
qed

lemma pat_match_complete:
  assumes "coordinate_text v g1 g2"
  shows "pat_match v = Some (g1, g2)"
proof -
  from assms obtain w1 w2 w3 w4 where v: "v = w1 @ g1 @ w2 @ '','' @ w3 @ g2 @ w4"
    and w: "list_all is_space w1" "list_all is_space w2" "list_all is_space w3" "list_all is_space w4"
    and d: "decimal_number g1" "decimal_number g2"
    unfolding coordinate_text_def by blast
  define r1 where "r1 = w2 @ '','' @ w3 @ g2 @ w4"
  define r2 where "r2 = w3 @ g2 @ w4"
  have h1: "g1 @ r1 = [] \<or> \<not> is_space (hd (g1 @ r1))"
    using decimal_number_head [OF d(1)] by (simp add: hd_append)
  have a: "dropWhile is_space v = g1 @ r1"
    unfolding v r1_def [symmetric] using w(1) h1 by (rule dropWhile_stop)
  have st1: "stop r1"
    using w(2) by (cases w2) (auto simp: stop_def r1_def special_chars dest: space_chars)
  have b: "take_number (g1 @ r1) = Some (g1, r1)" using d(1) st1 by (rule take_number_complete)
  have h2: "'','' @ r2 = [] \<or> \<not> is_space (hd ('','' @ r2))" by (simp add: special_chars)
  have c: "dropWhile is_space r1 = '','' @ r2"
    unfolding r1_def r2_def [symmetric] using w(2) h2 by (rule dropWhile_stop)
  have h3: "g2 @ w4 = [] \<or> \<not> is_space (hd (g2 @ w4))"
    using decimal_number_head [OF d(2)] by (simp add: hd_append)
  have e: "dropWhile is_space r2 = g2 @ w4"
    unfolding r2_def using w(3) h3 by (rule dropWhile_stop)
  have st2: "stop w4"
    using w(4) by (cases w4) (auto simp: stop_def dest: space_chars)
  have f: "take_number (g2 @ w4) = Some (g2, w4)" using d(2) st2 by (rule take_number_complete)
  have g: "\<forall>x \<in> set w4. is_space x" using w(4) by (simp add: list_all_iff)
  show ?thesis
    by (simp add: pat_match_def a b c e f g)
qed

lemma pat_match_iff: "pat_match v = Some (g1, g2) \<longleftrightarrow> coordinate_text v g1 g2"
  using pat_match_sound pat_match_complete by blast

lemma py_float_decimal: "decimal_number g \<Longrightarrow> py_float g = Inr (binary64 (decimal_value g))"
proof -
  assume "decimal_number g"
  then have "take_number (g @ []) = Some (g, [])"
    by (rule take_number_complete) (simp add: stop_def)
  then show ?thesis by (simp add: py_float_def)
qed

lemma coordinate_text_decimal: "coordinate_text v g1 g2 \<Longrightarrow> decimal_number g1 \<and> decimal_number g2"
  by (auto simp: coordinate_text_def)

lemma parse_value_eq: "parse_value v = Inr (coordinate_floats v)"
proof -
  define r where "r = pat_match v"
  show ?thesis
  proof (cases r)
    case None
    then show ?thesis by (simp add: r_def [symmetric] parse_value_def coordinate_floats_def)
  next
    case (Some a)
    obtain g1 g2 where a: "a = (g1, g2)" by (cases a)
    from Some a have m: "pat_match v = Some (g1, g2)" by (simp add: r_def)
    then have "coordinate_text v g1 g2" by (simp add: pat_match_iff)
    then have "decimal_number g1" "decimal_number g2" by (simp_all add: coordinate_text_decimal)
    then have "py_float g1 = Inr (binary64 (decimal_value g1))"
      "py_float g2 = Inr (binary64 (decimal_value g2))"
      by (simp_all add: py_float_decimal)
    with m show ?thesis by (simp add: parse_value_def coordinate_floats_def)
  qed
qed

lemma parse_texts_eq:
  "parse_texts vs = Inr (map (\<lambda>v. fst (coordinate_floats v)) vs, map (\<lambda>v. snd (coordinate_floats v)) vs)"
  by (induction vs) (simp_all add: parse_value_eq split: prod.splits)





section \<open>Properties of the loader\<close>

lemma zip_zip_map: "zip xs (zip (map f xs) (map g xs)) = map (\<lambda>x. (x, f x, g x)) xs"
  by (induction xs) auto

lemma map_filter_map: "List.map_filter F (map k xs) = List.map_filter (\<lambda>x. F (k x)) xs"
  by (induction xs) (auto simp: List.map_filter_simps split: option.splits)

lemma map_filter_cong_set: "(\<And>x. x \<in> set xs \<Longrightarrow> f x = g x) \<Longrightarrow> List.map_filter f xs = List.map_filter g xs"
  by (induction xs) (auto simp: List.map_filter_simps split: option.splits)

lemma set_map_filter: "set (List.map_filter f xs) = {y. \<exists>x \<in> set xs. f x = Some y}"
  by (induction xs) (auto simp: List.map_filter_simps split: option.splits)

lemma length_map_filter: "length (List.map_filter f xs) = length (filter (\<lambda>x. f x \<noteq> None) xs)"
  by (induction xs) (auto simp: List.map_filter_simps split: option.splits)

lemma kept_rows_zip:
  assumes "parse_coordinates rt (map (\<lambda>row. cell_at cols row c) rows) = Inr (lat, lon)"
  shows "List.map_filter join_dropna (zip rows (zip lat lon)) = kept_rows rt cols c rows"
proof -
  from assms have lat: "lat = map (\<lambda>row. fst (coordinate_floats (astype_str rt (cell_at cols row c)))) rows"
    and lon: "lon = map (\<lambda>row. snd (coordinate_floats (astype_str rt (cell_at cols row c)))) rows"
    by (simp_all add: parse_coordinates_def parse_texts_eq comp_def)
  show ?thesis
    unfolding lat lon zip_zip_map map_filter_map kept_rows_def by simp
qed

lemma parse_coordinates_Inr:
  "parse_coordinates rt series =
     Inr (map (\<lambda>c. fst (coordinate_floats (astype_str rt c))) series,
          map (\<lambda>c. snd (coordinate_floats (astype_str rt c))) series)"
  by (simp add: parse_coordinates_def parse_texts_eq comp_def)

lemma load_data_Some:
  assumes "map_of xls ''Plant data'' = Some df"
    and "pick (map strip (header df)) [''coordinates''] = Some c"
  shows "load_data rt (Some xls) =
     Inr (\<lparr>columns = map strip (header df),
           plants = map (total_capacity rt (map strip (header df))
                      (filter is_cap_col (map strip (header df) @ [''Latitude'', ''Longitude''])))
                    (kept_rows rt (map strip (header df)) c (body df))\<rparr>,
          \<lparr>owner = pick (map strip (header df) @ [''Latitude'', ''Longitude'']) [''owner''],
           region = region_pick (map strip (header df) @ [''Latitude'', ''Longitude'']),
           sheet = ''Plant data'',
           cap_cols = filter is_cap_col (map strip (header df) @ [''Latitude'', ''Longitude''])\<rparr>)"
proof -
  define lat where "lat = map (\<lambda>c. fst (coordinate_floats (astype_str rt c)))
      (map (\<lambda>row. cell_at (map strip (header df)) row c) (body df))"
  define lon where "lon = map (\<lambda>c. snd (coordinate_floats (astype_str rt c)))
      (map (\<lambda>row. cell_at (map strip (header df)) row c) (body df))"
  have p: "parse_coordinates rt (map (\<lambda>row. cell_at (map strip (header df)) row c) (body df)) =
      Inr (lat, lon)"
    unfolding lat_def lon_def by (rule parse_coordinates_Inr)
  have z: "List.map_filter join_dropna (zip (body df) (zip lat lon)) =
      kept_rows rt (map strip (header df)) c (body df)"
    using p by (rule kept_rows_zip)
  show ?thesis
    unfolding load_data_def Let_def
    by (simp only: assms option.case p sum.case prod.case z)
qed

lemma load_data_cases:
  "load_data rt None = Inl FileNotFoundError"
  "map_of xls ''Plant data'' = None \<Longrightarrow>
     load_data rt (Some xls) = Inl (KeyError_sheet ''Plant data'' (map fst xls))"
  "map_of xls ''Plant data'' = Some df \<Longrightarrow> pick (map strip (header df)) [''coordinates''] = None \<Longrightarrow>
     load_data rt (Some xls) = Inl KeyError_column"
  by (simp_all add: load_data_def)

lemma binary64_not_NaN: "binary64 q \<noteq> NaN"
  by (simp add: binary64_def Let_def)

lemma binary64_finite: "is_finite (binary64 q) \<longleftrightarrow> \<bar>q\<bar> < overflow_threshold"
  by (auto simp: binary64_def Let_def is_finite_def)

lemma join_dropna_floats:
  "join_dropna (row, coordinate_floats v) = Some k \<longleftrightarrow>
     (\<exists>g1 g2. coordinate_text v g1 g2 \<and>
        k = \<lparr>cells = row, Latitude = binary64 (decimal_value g1),
             Longitude = binary64 (decimal_value g2), TotalCapacity = None\<rparr>)"
proof -
  define r where "r = pat_match v"
  show ?thesis
  proof (cases r)
    case None
    then have n: "pat_match v = None" by (simp add: r_def)
    then have "\<not> (\<exists>g1 g2. coordinate_text v g1 g2)" by (auto dest: pat_match_complete)
    with n show ?thesis by (auto simp: join_dropna_def coordinate_floats_def)
  next
    case (Some a)
    obtain g1 g2 where a: "a = (g1, g2)" by (cases a)
    from Some a have m: "pat_match v = Some (g1, g2)" by (simp add: r_def)
    have u: "coordinate_text v h1 h2 \<longleftrightarrow> h1 = g1 \<and> h2 = g2" for h1 h2
      using m by (auto simp: pat_match_iff [symmetric])
    show ?thesis
      using m by (auto simp: join_dropna_def coordinate_floats_def u binary64_not_NaN)
  qed
qed

lemma join_dropna_ex:
  "(\<exists>k. join_dropna (row, coordinate_floats v) = Some k) \<longleftrightarrow> (\<exists>g1 g2. coordinate_text v g1 g2)"
  unfolding join_dropna_floats by blast

lemma length_kept_rows:
  "length (kept_rows rt cols c rows) =
     length (filter (\<lambda>row. \<exists>g1 g2. coordinate_text (astype_str rt (cell_at cols row c)) g1 g2) rows)"
  by (simp add: kept_rows_def length_map_filter join_dropna_ex)

lemma kept_rows_mem:
  "k \<in> set (kept_rows rt cols c rows) \<longleftrightarrow>
     (\<exists>row \<in> set rows. \<exists>g1 g2. coordinate_text (astype_str rt (cell_at cols row c)) g1 g2 \<and>
        k = \<lparr>cells = row, Latitude = binary64 (decimal_value g1),
             Longitude = binary64 (decimal_value g2), TotalCapacity = None\<rparr>)"
  by (simp add: kept_rows_def set_map_filter join_dropna_floats)

end
